theory Spec2Isabelle
  imports Complex_Main "HOL-Library.Word"
begin

section \<open>Data model\<close>

text \<open>
  Byte strings (Python \<open>bytes\<close>) are lists of 8-bit words.  A \<open>datetime\<close> is a count of
  microseconds, the resolution of Python's \<open>datetime\<close>; a \<open>timedelta\<close> is a difference of
  two such counts.
\<close>

type_synonym bytes = "8 word list"
type_synonym datetime = int
type_synonym timedelta = int

definition timedelta_minutes :: "int \<Rightarrow> timedelta" where
  "timedelta_minutes m = m * 60000000"

definition timedelta_seconds :: "int \<Rightarrow> timedelta" where
  "timedelta_seconds s = s * 1000000"

text \<open>
  The exceptions of the Python code that the model distinguishes.  \<open>NameError\<close> carries the
  name that was looked up.
\<close>

datatype py_error = NameError string | TypeError | ValueError

text \<open>
  \<open>models.User\<close> (src/models.py, lines 10-23).  Nullable columns are options; the column
  \<open>id\<close> is called \<open>user_id\<close> here.  \<open>failed_attempts\<close> is declared
  \<open>db.Column(db.Integer, default=0)\<close> without \<open>nullable=False\<close>, so it can hold
  \<open>None\<close>.  The class \<open>User\<close> that src/app.py declares for itself has only the columns
  \<open>id\<close>, \<open>username\<close>, \<open>password_hash\<close>, \<open>iris_data\<close> and \<open>created_at\<close>, a
  subset of these; the routes of src/app.py are modelled over this record and read only
  those columns.
\<close>

record user =
  user_id :: nat
  username :: string
  password_hash :: string
  email :: "string option"
  iris_data :: "bytes option"
  is_active :: bool
  created_at :: datetime
  last_login :: "datetime option"
  failed_attempts :: "int option"
  locked_until :: "datetime option"

section \<open>Iris data at rest (src/security.py, src/models.py)\<close>

text \<open>\<open>encrypt_iris_data\<close> and \<open>decrypt_iris_data\<close>, src/security.py lines 106-122.\<close>

definition encrypt_iris_data :: "bytes \<Rightarrow> bytes" where
  "encrypt_iris_data iris_bytes = iris_bytes"

definition decrypt_iris_data :: "bytes \<Rightarrow> bytes" where
  "decrypt_iris_data encrypted_data = encrypted_data"

text \<open>\<open>User.set_iris_data\<close>, src/models.py lines 37-39.\<close>

definition set_iris_data :: "user \<Rightarrow> bytes \<Rightarrow> user" where
  "set_iris_data self b = self\<lparr>iris_data := Some (encrypt_iris_data b)\<rparr>"

text \<open>
  \<open>User.get_iris_data\<close>, src/models.py lines 41-45.  The test \<open>if self.iris_data:\<close> is
  Python truthiness: it fails for \<open>None\<close> and for the empty byte string.
\<close>

definition get_iris_data :: "user \<Rightarrow> bytes option" where
  "get_iris_data self =
     (case iris_data self of
        None \<Rightarrow> None
      | Some d \<Rightarrow> if d \<noteq> [] then Some (decrypt_iris_data d) else None)"

section \<open>Lockout bookkeeping (src/models.py)\<close>

text \<open>
  The names bound at module level in src/models.py: the imports of lines 1-6, \<open>db\<close> of
  line 8 and the five classes.  A name that is neither here nor a Python builtin raises
  \<open>NameError\<close> when the running code looks it up.
\<close>

definition models_globals :: "string list" where
  "models_globals =
     [''datetime'', ''Optional'', ''SQLAlchemy'', ''UserMixin'',
      ''generate_password_hash'', ''check_password_hash'',
      ''encrypt_iris_data'', ''decrypt_iris_data'', ''db'',
      ''User'', ''IrisEnrollment'', ''AccessLog'', ''SecurityEvent'', ''SystemConfig'']"

text \<open>
  \<open>User.record_login_attempt\<close>, src/models.py lines 47-56, called at time \<open>now\<close>
  (the value of \<open>datetime.utcnow()\<close>).  The method mutates the object and returns nothing,
  so the model returns the object as the call leaves it, together with the exception that
  ended the call, if one did.  \<open>self.failed_attempts += 1\<close> raises \<open>TypeError\<close> on
  \<open>None\<close>; line 56 evaluates \<open>datetime.utcnow()\<close>, then looks up \<open>timedelta\<close>.
\<close>

definition record_login_attempt :: "datetime \<Rightarrow> user \<Rightarrow> bool \<Rightarrow> user \<times> py_error option" where
  "record_login_attempt now self success =
     (if success then
        (self\<lparr>failed_attempts := Some 0, last_login := Some now, locked_until := None\<rparr>, None)
      else
        (case failed_attempts self of
           None \<Rightarrow> (self, Some TypeError)
         | Some n \<Rightarrow>
             (let self1 = self\<lparr>failed_attempts := Some (n + 1)\<rparr> in
              if n + 1 \<ge> 5 then
                (if ''timedelta'' \<in> set models_globals then
                   (self1\<lparr>locked_until := Some (now + timedelta_minutes 30)\<rparr>, None)
                 else (self1, Some (NameError ''timedelta'')))
              else (self1, None))))"

text \<open>A user row as the test suite creates it, after four failed attempts.\<close>

definition testuser :: user where
  "testuser =
     \<lparr>user_id = 1, username = ''testuser'', password_hash = ''hash:Test@123'',
      email = Some ''test@example.com'', iris_data = None, is_active = True,
      created_at = 0, last_login = None, failed_attempts = Some 4, locked_until = None\<rparr>"

section \<open>HTTP routes of src/app.py\<close>

text \<open>
  A route returns a JSON body (or a rendered template) with a status code.  The second
  component of a route's result is the list of effects it performed, in order: the
  database queries, password checks, image-processing calls and session logins that the
  source reaches.
\<close>

datatype http_method = GET | POST

datatype body =
    Json_error string
  | Json_message string
  | Json_authenticated string string
  | Json_retry_after string int
  | Template string

type_synonym response = "body \<times> nat"

datatype event =
    Query_username string
  | Check_password nat
  | Login_user nat
  | Decode_image
  | Detect_circles
  | Query_iris_users
  | Compare_iris nat

text \<open>
  What the routes read of a Flask request: the peer address and the uploaded files, each
  upload given by the bytes its \<open>read()\<close> returns.
\<close>

record request =
  remote_addr :: string
  files :: "string \<rightharpoonup> bytes"

text \<open>
  \<open>login\<close>, src/app.py lines 80-104.  \<open>data\<close> is the parsed JSON object
  (\<open>request.get_json()\<close>), a dictionary of strings or \<open>None\<close>; \<open>not data\<close> holds for
  \<open>None\<close> and for the empty dictionary.  \<open>users\<close> is the table in the order the database
  returns it.  \<open>check_password_hash\<close> is werkzeug's and is a parameter.
\<close>

definition login ::
  "(string \<Rightarrow> string \<Rightarrow> bool) \<Rightarrow> user list \<Rightarrow> http_method \<Rightarrow> (string \<times> string) list option
     \<Rightarrow> response \<times> event list" where
  "login check_password_hash users method data =
     (if method = POST then
        (case data of
           None \<Rightarrow> ((Json_error ''No JSON data provided'', 400), [])
         | Some d \<Rightarrow>
             if d = [] then ((Json_error ''No JSON data provided'', 400), [])
             else
               (case (map_of d ''username'', map_of d ''password'') of
                  (Some name, Some password) \<Rightarrow>
                    (case find (\<lambda>u. username u = name) users of
                       None \<Rightarrow>
                         ((Json_error ''Invalid username or password'', 401),
                          [Query_username name])
                     | Some user \<Rightarrow>
                         if check_password_hash (password_hash user) password then
                           ((Json_message ''Login successful'', 200),
                            [Query_username name, Check_password (user_id user),
                             Login_user (user_id user)])
                         else
                           ((Json_error ''Invalid username or password'', 401),
                            [Query_username name, Check_password (user_id user)]))
                | _ \<Rightarrow> ((Json_error ''Username and password are required'', 400), [])))
      else ((Template ''login.html'', 200), []))"

text \<open>
  Images are numpy arrays of unsigned bytes: a grayscale image is a list of rows of
  pixels, a colour image a list of rows of BGR triples.  The calls into OpenCV and dlib
  are parameters, collected in one record.  A call either raises (\<open>Raised\<close>) or
  returns.  \<open>imdecode\<close> returns \<open>None\<close> for a buffer it cannot decode;
  \<open>HoughCircles\<close> returns \<open>None\<close> when it finds no circle, else the circles
  \<open>(x, y, r)\<close> in the order it reports them; \<open>predictor\<close> returns the landmark
  points of a face; \<open>mask_eyes\<close> stands for lines 26-31 of src/iris_recognition.py,
  whose results are discarded, and \<open>circle_region\<close> for lines 74-78, which black out
  everything outside the circle.
\<close>

type_synonym gray_image = "8 word list list"
type_synonym colour_image = "(8 word \<times> 8 word \<times> 8 word) list list"

datatype 'a cv_result = Raised | Returned 'a

record hough_args =
  dp :: nat
  minDist :: nat
  param1 :: nat
  param2 :: nat
  minRadius :: nat
  maxRadius :: nat

record vision =
  imdecode :: "bytes \<Rightarrow> colour_image option cv_result"
  cvtColor :: "colour_image \<Rightarrow> gray_image cv_result"
  HoughCircles :: "gray_image \<Rightarrow> hough_args \<Rightarrow> (real \<times> real \<times> real) list option cv_result"
  detector :: "colour_image \<Rightarrow> (int \<times> int \<times> int \<times> int) list cv_result"
  predictor :: "colour_image \<Rightarrow> (int \<times> int \<times> int \<times> int) \<Rightarrow> (int \<times> int) list cv_result"
  mask_eyes :: "colour_image \<Rightarrow> (int \<times> int) list \<Rightarrow> (int \<times> int) list \<Rightarrow> unit cv_result"
  boundingRect :: "(int \<times> int) list \<Rightarrow> (int \<times> int \<times> int \<times> int) cv_result"
  equalizeHist :: "gray_image \<Rightarrow> gray_image cv_result"
  GaussianBlur :: "gray_image \<Rightarrow> nat \<times> nat \<Rightarrow> gray_image cv_result"
  circle_region :: "gray_image \<Rightarrow> 16 word \<times> 16 word \<times> 16 word \<Rightarrow> gray_image cv_result"
  resize :: "gray_image \<Rightarrow> nat \<times> nat \<Rightarrow> gray_image cv_result"
  getGaborKernel ::
    "nat \<times> nat \<Rightarrow> real \<Rightarrow> real \<Rightarrow> real \<Rightarrow> real \<Rightarrow> real \<Rightarrow> real list list cv_result"
  filter2D :: "gray_image \<Rightarrow> real list list \<Rightarrow> gray_image cv_result"
  Laplacian :: "gray_image \<Rightarrow> real list list cv_result"

text \<open>\<open>np.round\<close> rounds to the nearest integer, a tie to the even one.\<close>

definition np_round :: "real \<Rightarrow> int" where
  "np_round x =
     (let f = \<lfloor>x\<rfloor>; d = x - of_int f in
      if d < 1 / 2 then f else if 1 / 2 < d then f + 1 else if even f then f else f + 1)"

text \<open>The loop of src/app.py lines 181-185: the first circle with \<open>r > 15\<close> returns True.\<close>

fun valid_circle :: "(int \<times> int \<times> int) list \<Rightarrow> bool" where
  "valid_circle [] = False"
| "valid_circle ((x, y, r) # circles) = (if r > 15 then True else valid_circle circles)"

text \<open>
  \<open>detect_iris_in_image\<close>, src/app.py lines 145-194.  Every exception is caught and
  gives False (lines 192-194).
\<close>

definition detect_iris_in_image :: "vision \<Rightarrow> bytes \<Rightarrow> bool \<times> event list" where
  "detect_iris_in_image cv image_data =
     (case imdecode cv image_data of
        Raised \<Rightarrow> (False, [Decode_image])
      | Returned None \<Rightarrow> (False, [Decode_image])
      | Returned (Some img) \<Rightarrow>
          (case cvtColor cv img of
             Raised \<Rightarrow> (False, [Decode_image])
           | Returned gray \<Rightarrow>
               (case HoughCircles cv gray
                       \<lparr>dp = 1, minDist = 30, param1 = 50, param2 = 30,
                        minRadius = 10, maxRadius = 100\<rparr> of
                  Raised \<Rightarrow> (False, [Decode_image, Detect_circles])
                | Returned None \<Rightarrow> (False, [Decode_image, Detect_circles])
                | Returned (Some circles) \<Rightarrow>
                    (valid_circle
                       (map (\<lambda>(x, y, r). (np_round x, np_round y, np_round r)) circles),
                     [Decode_image, Detect_circles]))))"

text \<open>\<open>compare_iris_images\<close>, src/app.py lines 196-206.\<close>

definition compare_iris_images :: "bytes \<Rightarrow> bytes \<Rightarrow> bool" where
  "compare_iris_images stored_iris_data new_iris_data = True"

text \<open>
  The loop of \<open>verify_iris\<close>, src/app.py lines 232-250, over the users the query
  returned.  \<open>compare_iris_images\<close> takes \<open>len\<close> of the stored data, which raises
  \<open>TypeError\<close> on \<open>None\<close>; the handler of lines 252-254 turns that into status 500.
\<close>

fun compare_with_each :: "user list \<Rightarrow> bytes \<Rightarrow> response \<times> event list" where
  "compare_with_each [] iris_image_data =
     ((Json_error ''Iris authentication failed. No matching iris found.'', 401), [])"
| "compare_with_each (user # rest) iris_image_data =
     (case iris_data user of
        None \<Rightarrow>
          ((Json_error ''An error occurred during iris verification'', 500),
           [Compare_iris (user_id user)])
      | Some stored \<Rightarrow>
          if compare_iris_images stored iris_image_data then
            ((Json_authenticated ''Iris authentication successful'' (username user), 200),
             [Compare_iris (user_id user), Login_user (user_id user)])
          else
            (let (resp, evs) = compare_with_each rest iris_image_data
             in (resp, Compare_iris (user_id user) # evs)))"

text \<open>
  \<open>verify_iris\<close>, src/app.py lines 208-254.  The route is registered with
  \<open>@app.route\<close> alone (line 208): src/app.py does not import src/security.py, and
  no decorator stands between the request and this function.
\<close>

definition verify_iris ::
  "vision \<Rightarrow> user list \<Rightarrow> request \<Rightarrow> response \<times> event list" where
  "verify_iris cv users request =
     (case files request ''iris_image'' of
        None \<Rightarrow> ((Json_error ''No iris image provided'', 400), [])
      | Some iris_image_data \<Rightarrow>
          (let (iris_detected, evs) = detect_iris_in_image cv iris_image_data in
           if \<not> iris_detected then
             ((Json_error
                 ''No iris detected in the image. Please ensure your eye is clearly visible and well-lit.'',
               400), evs)
           else
             (let users_with_iris = filter (\<lambda>u. iris_data u \<noteq> None) users in
              if users_with_iris = [] then
                ((Json_error ''No registered iris data found in the system'', 400),
                 evs @ [Query_iris_users])
              else
                (let (resp, evs2) = compare_with_each users_with_iris iris_image_data
                 in (resp, evs @ [Query_iris_users] @ evs2)))))"

text \<open>
  The server answers the requests to \<open>/verify_iris\<close> in arrival order; the route keeps
  no state of its own between two requests.
\<close>

definition serve_verify_iris ::
  "vision \<Rightarrow> user list \<Rightarrow> request list \<Rightarrow> (response \<times> event list) list" where
  "serve_verify_iris cv users requests = map (verify_iris cv users) requests"

section \<open>Rate limiting (src/security.py)\<close>

text \<open>
  The two stores of src/security.py.  \<open>redis_client\<close> is \<open>None\<close> or a Redis database,
  modelled by the keys it holds, each with its integer value and the time at which it
  expires; \<open>rate_limit_storage\<close> is the module's dictionary, from an address to
  \<open>attempts\<close> and \<open>start_time\<close>.
\<close>

record limiter =
  redis_client :: "(string \<rightharpoonup> int \<times> datetime) option"
  rate_limit_storage :: "string \<rightharpoonup> int \<times> datetime"

definition get_rate_limit_key :: "string \<Rightarrow> string" where
  "get_rate_limit_key ip = ''rate_limit:'' @ ip"

text \<open>
  \<open>is_rate_limited\<close>, src/security.py lines 26-61, called at time \<open>now\<close>;
  \<open>window\<close> (seconds) and \<open>max_attempts\<close> are the values read from the environment.
  In Redis, \<open>get\<close> finds a key until it expires, \<open>setex\<close> stores a value with a time
  to live and \<open>incr\<close> keeps the expiry of a live key.
\<close>

definition is_rate_limited :: "int \<Rightarrow> int \<Rightarrow> datetime \<Rightarrow> string \<Rightarrow> limiter \<Rightarrow> bool \<times> limiter" where
  "is_rate_limited window max_attempts now ip st =
     (case redis_client st of
        Some redis \<Rightarrow>
          (let key = get_rate_limit_key ip;
               fresh = st\<lparr>redis_client :=
                         Some (redis(key \<mapsto> (1, now + timedelta_seconds window)))\<rparr>
           in case redis key of
                None \<Rightarrow> (False, fresh)
              | Some (attempts, expires) \<Rightarrow>
                  if expires \<le> now then (False, fresh)
                  else if attempts \<ge> max_attempts then (True, st)
                  else (False, st\<lparr>redis_client :=
                                   Some (redis(key \<mapsto> (attempts + 1, expires)))\<rparr>))
      | None \<Rightarrow>
          (case rate_limit_storage st ip of
             Some (attempts, start_time) \<Rightarrow>
               if now - start_time > timedelta_seconds window then
                 (False, st\<lparr>rate_limit_storage := (rate_limit_storage st)(ip \<mapsto> (1, now))\<rparr>)
               else if attempts \<ge> max_attempts then (True, st)
               else (False, st\<lparr>rate_limit_storage :=
                                (rate_limit_storage st)(ip \<mapsto> (attempts + 1, start_time))\<rparr>)
           | None \<Rightarrow>
               (False, st\<lparr>rate_limit_storage := (rate_limit_storage st)(ip \<mapsto> (1, now))\<rparr>)))"

text \<open>
  The decorator \<open>rate_limit\<close>, src/security.py lines 63-77, around a route \<open>f\<close>.
  No route of the repository is decorated with it.
\<close>

definition rate_limit ::
  "int \<Rightarrow> int \<Rightarrow> (request \<Rightarrow> response \<times> event list) \<Rightarrow> datetime \<Rightarrow> request \<Rightarrow> limiter
     \<Rightarrow> (response \<times> event list) \<times> limiter" where
  "rate_limit window max_attempts f now request st =
     (let (limited, st') = is_rate_limited window max_attempts now (remote_addr request) st in
      if limited then
        (((Json_retry_after ''Too many attempts. Please try again later.'' window, 429), []),
         st')
      else (f request, st'))"

text \<open>
  A server whose route \<open>f\<close> is wrapped in \<open>rate_limit\<close>, answering requests in
  arrival order, each with its arrival time.
\<close>

fun serve_rate_limited ::
  "int \<Rightarrow> int \<Rightarrow> (request \<Rightarrow> response \<times> event list) \<Rightarrow> (datetime \<times> request) list \<Rightarrow> limiter
     \<Rightarrow> (response \<times> event list) list" where
  "serve_rate_limited window max_attempts f [] st = []"
| "serve_rate_limited window max_attempts f ((now, request) # rest) st =
     (let (r, st') = rate_limit window max_attempts f now request st
      in r # serve_rate_limited window max_attempts f rest st')"

definition too_many_attempts :: "int \<Rightarrow> response \<times> event list" where
  "too_many_attempts window =
     ((Json_retry_after ''Too many attempts. Please try again later.'' window, 429), [])"

section \<open>Feature extraction (src/iris_recognition.py)\<close>

text \<open>
  Python slicing \<open>xs[lo:hi]\<close>: a negative bound counts from the end, and both bounds are
  clipped to the list.  \<open>crop\<close> is the two-dimensional slice \<open>image[y0:y1, x0:x1]\<close>.
\<close>

definition py_slice :: "int \<Rightarrow> int \<Rightarrow> 'a list \<Rightarrow> 'a list" where
  "py_slice lo hi xs =
     (let n = int (length xs);
          clip = (\<lambda>i. if i < 0 then max (i + n) 0 else min i n)
      in take (nat (clip hi - clip lo)) (drop (nat (clip lo)) xs))"

definition crop :: "'a list list \<Rightarrow> int \<Rightarrow> int \<Rightarrow> int \<Rightarrow> int \<Rightarrow> 'a list list" where
  "crop img y0 y1 x0 x1 = map (py_slice x0 x1) (py_slice y0 y1 img)"

text \<open>
  \<open>_extract_eye_region\<close>, src/iris_recognition.py lines 15-41.  \<open>landmarks.part(i)\<close>
  raises for an index the landmark set does not have.
\<close>

definition extract_eye_region ::
  "vision \<Rightarrow> colour_image \<Rightarrow> (int \<times> int) list \<Rightarrow> (colour_image \<times> colour_image) cv_result" where
  "extract_eye_region cv img landmarks =
     (if length landmarks < 48 then Raised
      else
        (let left_eye = map (\<lambda>i. landmarks ! (36 + i)) [0..<6];
             right_eye = map (\<lambda>i. landmarks ! (42 + i)) [0..<6]
         in case mask_eyes cv img left_eye right_eye of
              Raised \<Rightarrow> Raised
            | Returned _ \<Rightarrow>
                (case boundingRect cv left_eye of
                   Raised \<Rightarrow> Raised
                 | Returned (left_x, left_y, left_w, left_h) \<Rightarrow>
                     (case boundingRect cv right_eye of
                        Raised \<Rightarrow> Raised
                      | Returned (right_x, right_y, right_w, right_h) \<Rightarrow>
                          Returned
                            (crop img left_y (left_y + left_h) left_x (left_x + left_w),
                             crop img right_y (right_y + right_h) right_x
                               (right_x + right_w))))))"

text \<open>\<open>np.uint16\<close> of an integer-valued float: the value modulo \<open>2 ^ 16\<close>.\<close>

definition np_uint16 :: "int \<Rightarrow> 16 word" where
  "np_uint16 i = word_of_int i"

text \<open>
  \<open>_process_eye_region\<close>, src/iris_recognition.py lines 43-85.  \<open>eye_region.size\<close> is
  the number of array elements.  \<open>circles[0][0]\<close> raises \<open>IndexError\<close> if the detector
  returns an empty array.
\<close>

definition process_eye_region :: "vision \<Rightarrow> colour_image \<Rightarrow> gray_image option cv_result" where
  "process_eye_region cv eye_region =
     (if concat eye_region = [] then Returned None
      else
        (case cvtColor cv eye_region of
           Raised \<Rightarrow> Raised
         | Returned gray_eye \<Rightarrow>
             (case equalizeHist cv gray_eye of
                Raised \<Rightarrow> Raised
              | Returned equalized \<Rightarrow>
                  (case GaussianBlur cv equalized (7, 7) of
                     Raised \<Rightarrow> Raised
                   | Returned blurred \<Rightarrow>
                       (case HoughCircles cv blurred
                               \<lparr>dp = 1, minDist = 20, param1 = 50, param2 = 30,
                                minRadius = 10, maxRadius = 30\<rparr> of
                          Raised \<Rightarrow> Raised
                        | Returned None \<Rightarrow> Returned None
                        | Returned (Some []) \<Rightarrow> Raised
                        | Returned (Some ((x, y, r) # _)) \<Rightarrow>
                            (case circle_region cv equalized
                                    (np_uint16 (np_round x), np_uint16 (np_round y),
                                     np_uint16 (np_round r)) of
                               Raised \<Rightarrow> Raised
                             | Returned iris \<Rightarrow>
                                 (case resize cv iris (100, 100) of
                                    Raised \<Rightarrow> Raised
                                  | Returned normalized \<Rightarrow> Returned (Some normalized))))))))"

text \<open>
  \<open>np.arange(start, stop, step)\<close>: the \<open>\<lceil>(stop - start) / step\<rceil>\<close> values
  \<open>start + i * step\<close>.
\<close>

definition np_arange :: "real \<Rightarrow> real \<Rightarrow> real \<Rightarrow> real list" where
  "np_arange start stop step =
     map (\<lambda>i. start + real i * step) [0..<nat \<lceil>(stop - start) / step\<rceil>]"

text \<open>
  The body of the two nested loops of \<open>_extract_iris_features\<close>, lines 94-105, over
  the pairs \<open>(theta, freq)\<close> in loop order; the result is the list \<open>features\<close>.
  The depth argument of \<open>filter2D\<close> is the constant \<open>cv2.CV_8UC3\<close> and is left
  out; \<open>flatten\<close> lists the pixels of the filtered image row by row.
\<close>

fun apply_gabor_filters ::
  "vision \<Rightarrow> gray_image \<Rightarrow> (real \<times> real) list \<Rightarrow> 8 word list list cv_result" where
  "apply_gabor_filters cv iris [] = Returned []"
| "apply_gabor_filters cv iris ((theta, freq) # rest) =
     (case getGaborKernel cv (21, 21) 5 theta (1 / freq) (1 / 2) 0 of
        Raised \<Rightarrow> Raised
      | Returned gabor \<Rightarrow>
          (case filter2D cv iris gabor of
             Raised \<Rightarrow> Raised
           | Returned filtered \<Rightarrow>
               (case apply_gabor_filters cv iris rest of
                  Raised \<Rightarrow> Raised
                | Returned features \<Rightarrow> Returned (concat filtered # features))))"

text \<open>\<open>_extract_iris_features\<close>, src/iris_recognition.py lines 87-107.\<close>

definition extract_iris_features ::
  "vision \<Rightarrow> gray_image option \<Rightarrow> 8 word list option cv_result" where
  "extract_iris_features cv iris =
     (case iris of
        None \<Rightarrow> Returned None
      | Some patch \<Rightarrow>
          (case apply_gabor_filters cv patch
                  (List.product (np_arange 0 pi (pi / 4)) [1 / 10, 2 / 10, 3 / 10]) of
             Raised \<Rightarrow> Raised
           | Returned features \<Rightarrow> Returned (Some (concat features))))"

text \<open>
  \<open>process_image\<close>, src/iris_recognition.py lines 109-142, in two parts.
  \<open>segment_eyes\<close> is lines 112-129, up to the two iris patches; its result is \<open>None\<close>
  where \<open>process_image\<close> returns \<open>None\<close> before line 131, by the early return of
  line 119 or through the handler of lines 138-140 (which also catches the
  \<open>TypeError\<close> of the face detector on an image that failed to decode).
\<close>

definition segment_eyes ::
  "vision \<Rightarrow> bytes \<Rightarrow> (gray_image option \<times> gray_image option) option" where
  "segment_eyes cv image_data =
     (case imdecode cv image_data of
        Raised \<Rightarrow> None
      | Returned None \<Rightarrow> None
      | Returned (Some img) \<Rightarrow>
          (case detector cv img of
             Raised \<Rightarrow> None
           | Returned [] \<Rightarrow> None
           | Returned (face # _) \<Rightarrow>
               (case predictor cv img face of
                  Raised \<Rightarrow> None
                | Returned landmarks \<Rightarrow>
                    (case extract_eye_region cv img landmarks of
                       Raised \<Rightarrow> None
                     | Returned (left_eye, right_eye) \<Rightarrow>
                         (case process_eye_region cv left_eye of
                            Raised \<Rightarrow> None
                          | Returned left_iris \<Rightarrow>
                              (case process_eye_region cv right_eye of
                                 Raised \<Rightarrow> None
                               | Returned right_iris \<Rightarrow> Some (left_iris, right_iris)))))))"

definition process_image :: "vision \<Rightarrow> bytes \<Rightarrow> 8 word list option" where
  "process_image cv image_data =
     (case segment_eyes cv image_data of
        None \<Rightarrow> None
      | Some (left_iris, right_iris) \<Rightarrow>
          (case extract_iris_features cv left_iris of
             Raised \<Rightarrow> None
           | Returned left_features \<Rightarrow>
               (case extract_iris_features cv right_iris of
                  Raised \<Rightarrow> None
                | Returned right_features \<Rightarrow>
                    (case (left_features, right_features) of
                       (Some l, Some r) \<Rightarrow> Some (l @ r)
                     | _ \<Rightarrow> None))))"

text \<open>An image of \<open>h\<close> rows of \<open>w\<close> pixels each.\<close>

definition has_shape :: "nat \<Rightarrow> nat \<Rightarrow> 'a list list \<Rightarrow> bool" where
  "has_shape h w img \<longleftrightarrow> length img = h \<and> (\<forall>row \<in> set img. length row = w)"

section \<open>Matching (src/iris_recognition.py)\<close>

text \<open>
  The numpy operations of \<open>compare_iris_features\<close> are parameters, over a type of
  arrays and a type of floating-point numbers: \<open>np.linalg.norm\<close>, the division of an
  array by a number, \<open>np.dot\<close> (which raises \<open>ValueError\<close> on arrays of different
  lengths), the comparison \<open>>=\<close>, and the floating-point number a decimal literal
  denotes.
\<close>

record ('arr, 'f) numpy =
  np_linalg_norm :: "'arr \<Rightarrow> 'f"
  np_divide :: "'arr \<Rightarrow> 'f \<Rightarrow> 'arr"
  np_dot :: "'arr \<Rightarrow> 'arr \<Rightarrow> py_error + 'f"
  np_greater_equal :: "'f \<Rightarrow> 'f \<Rightarrow> bool"
  np_float :: "real \<Rightarrow> 'f"

text \<open>\<open>compare_iris_features\<close>, src/iris_recognition.py lines 144-156.\<close>

definition compare_iris_features ::
  "('arr, 'f) numpy \<Rightarrow> 'arr option \<Rightarrow> 'arr option \<Rightarrow> 'f \<Rightarrow> py_error + bool" where
  "compare_iris_features np features1 features2 threshold =
     (case (features1, features2) of
        (Some f1, Some f2) \<Rightarrow>
          (let features1_norm = np_divide np f1 (np_linalg_norm np f1);
               features2_norm = np_divide np f2 (np_linalg_norm np f2)
           in case np_dot np features1_norm features2_norm of
                Inl e \<Rightarrow> Inl e
              | Inr similarity \<Rightarrow> Inr (np_greater_equal np similarity threshold))
      | _ \<Rightarrow> Inr False)"

text \<open>The call without a threshold: the default of the signature, \<open>0.8\<close>.\<close>

definition compare_iris_features_default ::
  "('arr, 'f) numpy \<Rightarrow> 'arr option \<Rightarrow> 'arr option \<Rightarrow> py_error + bool" where
  "compare_iris_features_default np features1 features2 =
     compare_iris_features np features1 features2 (np_float np (8 / 10))"

text \<open>
  The same operations in exact arithmetic over the real numbers, for the arrays on which
  numpy divides no entry by zero: the arrays of non-zero norm, and the empty array, whose
  norm is \<open>0.0\<close> and whose dot product with itself is \<open>0.0\<close>.  (numpy divides a
  non-empty all-zero array by its norm to an array of NaN; this instance has no NaN and
  is not used on such arrays.)
\<close>

definition l2norm :: "real list \<Rightarrow> real" where
  "l2norm a = sqrt (\<Sum>x\<leftarrow>a. x * x)"

definition dot_product :: "real list \<Rightarrow> real list \<Rightarrow> real" where
  "dot_product a b = (\<Sum>(x, y)\<leftarrow>zip a b. x * y)"

definition unit_vector :: "real list \<Rightarrow> real list" where
  "unit_vector a = map (\<lambda>x. x / l2norm a) a"

definition exact_numpy :: "(real list, real) numpy" where
  "exact_numpy =
     \<lparr>np_linalg_norm = l2norm,
      np_divide = (\<lambda>a d. map (\<lambda>x. x / d) a),
      np_dot = (\<lambda>a b. if length a = length b then Inr (dot_product a b) else Inl ValueError),
      np_greater_equal = (\<lambda>x y. x \<ge> y),
      np_float = (\<lambda>x. x)\<rparr>"

text \<open>Cosine similarity as the specification's glossary words it: the normalized dot product.\<close>

definition cosine_similarity :: "real list \<Rightarrow> real list \<Rightarrow> real" where
  "cosine_similarity a b = dot_product a b / (l2norm a * l2norm b)"

section \<open>Quality score (src/utils.py)\<close>

text \<open>
  The argument of \<open>calculate_iris_quality_score\<close> is a two-dimensional (grayscale) or a
  three-dimensional (colour) array.  Python floats and \<open>numpy.float64\<close> values are
  modelled by the real numbers they stand for, with exact arithmetic; NaN, which numpy
  returns for the mean of an empty array, is kept apart.
\<close>

datatype ndarray = Gray gray_image | Colour colour_image

datatype pyfloat = Num real | NaN

definition np_mean :: "real list \<Rightarrow> pyfloat" where
  "np_mean xs = (if xs = [] then NaN else Num (sum_list xs / real (length xs)))"

definition np_var :: "real list \<Rightarrow> pyfloat" where
  "np_var xs =
     (if xs = [] then NaN
      else (let m = sum_list xs / real (length xs)
            in Num (sum_list (map (\<lambda>x. (x - m)\<^sup>2) xs) / real (length xs))))"

definition np_std :: "real list \<Rightarrow> pyfloat" where
  "np_std xs = (case np_var xs of NaN \<Rightarrow> NaN | Num v \<Rightarrow> Num (sqrt v))"

definition float_div :: "pyfloat \<Rightarrow> real \<Rightarrow> pyfloat" where
  "float_div x c = (case x of NaN \<Rightarrow> NaN | Num a \<Rightarrow> Num (a / c))"

definition float_mul :: "real \<Rightarrow> pyfloat \<Rightarrow> pyfloat" where
  "float_mul c x = (case x of NaN \<Rightarrow> NaN | Num a \<Rightarrow> Num (c * a))"

definition float_add :: "pyfloat \<Rightarrow> pyfloat \<Rightarrow> pyfloat" where
  "float_add x y = (case (x, y) of (Num a, Num b) \<Rightarrow> Num (a + b) | _ \<Rightarrow> NaN)"

text \<open>
  Python's \<open>min(x, y)\<close> returns \<open>y\<close> if \<open>y < x\<close>, else \<open>x\<close>; a comparison with NaN
  is false.
\<close>

definition py_min :: "pyfloat \<Rightarrow> real \<Rightarrow> pyfloat" where
  "py_min x y = (case x of NaN \<Rightarrow> NaN | Num a \<Rightarrow> if y < a then Num y else Num a)"

text \<open>
  \<open>calculate_iris_quality_score\<close>, src/utils.py lines 48-79.  An exception of an
  OpenCV call is caught and gives \<open>0.0\<close>.
\<close>

definition calculate_iris_quality_score :: "vision \<Rightarrow> ndarray \<Rightarrow> pyfloat" where
  "calculate_iris_quality_score cv img =
     (case (case img of Colour c \<Rightarrow> cvtColor cv c | Gray g \<Rightarrow> Returned g) of
        Raised \<Rightarrow> Num 0
      | Returned gray \<Rightarrow>
          (let pixels = map (\<lambda>p. real (unat p)) (concat gray);
               mean_intensity = np_mean pixels;
               std_intensity = np_std pixels
           in case Laplacian cv gray of
                Raised \<Rightarrow> Num 0
              | Returned lap \<Rightarrow>
                  (let laplacian_var = np_var (concat lap);
                       intensity_score = py_min (float_div mean_intensity (1275 / 10)) 1;
                       contrast_score = py_min (float_div std_intensity 64) 1;
                       sharpness_score = py_min (float_div laplacian_var 500) 1
                   in float_add
                        (float_add (float_mul (3 / 10) intensity_score)
                                   (float_mul (3 / 10) contrast_score))
                        (float_mul (4 / 10) sharpness_score))))"

section \<open>Example inputs\<close>

text \<open>
  Stand-ins for werkzeug's \<open>check_password_hash\<close> and for the vision libraries, used
  only to evaluate the code on concrete inputs.  The decoder turns a non-empty buffer
  into a one-row image; the circle detector reports one circle whose radius is the
  first pixel of the image, or no circle when that pixel is 0; one face is found in
  every image; \<open>resize\<close> returns a black image of the size asked for; \<open>filter2D\<close>
  returns its input, and the Laplacian is zero everywhere, as it is for an image of one
  colour.
\<close>

definition example_check_password_hash :: "string \<Rightarrow> string \<Rightarrow> bool" where
  "example_check_password_hash pwhash password = (pwhash = ''hash:'' @ password)"

definition example_vision :: vision where
  "example_vision =
     \<lparr>imdecode = (\<lambda>b. if b = [] then Returned None
                      else Returned (Some [map (\<lambda>x. (x, x, x)) b])),
      cvtColor = (\<lambda>c. Returned (map (map fst) c)),
      HoughCircles = (\<lambda>g args. case concat g of
                         [] \<Rightarrow> Returned None
                       | b # _ \<Rightarrow> if b = 0 then Returned None
                                 else Returned (Some [(50, 50, real (unat b))])),
      detector = (\<lambda>img. Returned [(0, 0, 1, 1)]),
      predictor = (\<lambda>img face. Returned (replicate 68 (0, 0))),
      mask_eyes = (\<lambda>img l r. Returned ()),
      boundingRect = (\<lambda>points. Returned (0, 0, 1, 1)),
      equalizeHist = Returned,
      GaussianBlur = (\<lambda>g ksize. Returned g),
      circle_region = (\<lambda>g c. Returned g),
      resize = (\<lambda>g (w, h). Returned (replicate h (replicate w 0))),
      getGaborKernel = (\<lambda>ksize sigma theta lambd gamma psi. Returned []),
      filter2D = (\<lambda>g gabor. Returned g),
      Laplacian = (\<lambda>g. Returned (map (map (\<lambda>p. 0)) g))\<rparr>"

text \<open>The same stand-in with a detector that reports one circle of radius 15.3.\<close>

definition example_vision_fractional :: vision where
  "example_vision_fractional =
     example_vision\<lparr>HoughCircles := (\<lambda>g args. Returned (Some [(50, 50, 153 / 10)]))\<rparr>"

definition lockeduser :: user where
  "lockeduser = testuser\<lparr>failed_attempts := Some 5, locked_until := Some 2000\<rparr>"

definition example_users :: "user list" where
  "example_users =
     [testuser,
      testuser\<lparr>user_id := 2, username := ''bob'', iris_data := Some [7, 7]\<rparr>,
      testuser\<lparr>user_id := 3, username := ''carol'', iris_data := Some [9]\<rparr>]"

definition example_request :: "bytes \<Rightarrow> request" where
  "example_request upload = \<lparr>remote_addr = ''10.0.0.1'', files = [''iris_image'' \<mapsto> upload]\<rparr>"

section \<open>Lockout: the counter and the lock\<close>

text \<open>
  A failed attempt on an identity whose counter is set increments the counter by one,
  and no failed attempt ever changes \<open>locked_until\<close>.
\<close>

lemma record_login_attempt_increments:
  "failed_attempts self = Some n \<Longrightarrow>
   failed_attempts (fst (record_login_attempt now self False)) = Some (n + 1)"
  by (simp add: record_login_attempt_def Let_def)

lemma record_login_attempt_never_locks:
  "locked_until (fst (record_login_attempt now self False)) = locked_until self"
  by (simp add: record_login_attempt_def Let_def models_globals_def split: option.splits)

lemma record_login_attempt_fifth_raises:
  "failed_attempts self = Some n \<Longrightarrow> 5 \<le> n + 1 \<Longrightarrow>
   snd (record_login_attempt now self False) = Some (NameError ''timedelta'')"
  by (simp add: record_login_attempt_def Let_def models_globals_def)

text \<open>
  C1.  Recording the fifth failed attempt of an identity with four failures: the counter
  becomes 5, and the call then ends in \<open>NameError\<close> on \<open>timedelta\<close>, which
  src/models.py never imports; \<open>locked_until\<close> stays unset, so the identity does not
  become locked.
\<close>

theorem C1_fifth_failure_raises:
  "record_login_attempt 1000 testuser False
     = (testuser\<lparr>failed_attempts := Some 5\<rparr>, Some (NameError ''timedelta''))
   \<and> locked_until (fst (record_login_attempt 1000 testuser False)) = None"
  by (simp add: record_login_attempt_def testuser_def models_globals_def)

section \<open>Login and verification do not read the lock\<close>

lemma find_lock_update:
  "find (\<lambda>u. username u = n) (map (\<lambda>u. u\<lparr>failed_attempts := f u, locked_until := l u\<rparr>) users)
     = map_option (\<lambda>u. u\<lparr>failed_attempts := f u, locked_until := l u\<rparr>) (find (\<lambda>u. username u = n) users)"
  by (induction users) auto

lemma login_lock_update:
  "login chk (map (\<lambda>u. u\<lparr>failed_attempts := f u, locked_until := l u\<rparr>) users) m data
     = login chk users m data"
  by (auto simp: login_def find_lock_update split: option.splits)

lemma filter_lock_update:
  "filter (\<lambda>u. iris_data u \<noteq> None) (map (\<lambda>u. u\<lparr>failed_attempts := f u, locked_until := l u\<rparr>) users)
     = map (\<lambda>u. u\<lparr>failed_attempts := f u, locked_until := l u\<rparr>) (filter (\<lambda>u. iris_data u \<noteq> None) users)"
  by (induction users) auto

lemma compare_with_each_lock_update:
  "compare_with_each (map (\<lambda>u. u\<lparr>failed_attempts := f u, locked_until := l u\<rparr>) us) d
     = compare_with_each us d"
  by (induction us) (auto split: option.splits)

lemma verify_iris_lock_update:
  "verify_iris cv (map (\<lambda>u. u\<lparr>failed_attempts := f u, locked_until := l u\<rparr>) users) request
     = verify_iris cv users request"
  by (simp only: verify_iris_def Let_def filter_lock_update compare_with_each_lock_update
       map_is_Nil_conv)

lemma login_decided_by_password:
  assumes "map_of d ''username'' = Some name" and "map_of d ''password'' = Some password"
    and "find (\<lambda>u. username u = name) users = Some u"
  shows "login chk users POST (Some d) =
        (if chk (password_hash u) password
         then ((Json_message ''Login successful'', 200),
               [Query_username name, Check_password (user_id u), Login_user (user_id u)])
         else ((Json_error ''Invalid username or password'', 401),
               [Query_username name, Check_password (user_id u)]))"
proof -
  have "d \<noteq> []" using assms(1) by auto
  then show ?thesis using assms by (simp add: login_def)
qed

text \<open>
  C2 (as stated, refuted).  An identity whose \<open>locked_until\<close> lies in the future (2000,
  at time 1000) logs in with its password: the password check is evaluated and the
  answer is 200, not a rejection.
\<close>

theorem C2_locked_login_counterexample:
  "locked_until lockeduser = Some 2000 \<and> (1000 :: datetime) < 2000
   \<and> login example_check_password_hash [lockeduser] POST
        (Some [(''username'', ''testuser''), (''password'', ''Test@123'')])
      = ((Json_message ''Login successful'', 200),
         [Query_username ''testuser'', Check_password 1, Login_user 1])"
  by (simp add: login_def lockeduser_def testuser_def example_check_password_hash_def)

text \<open>
  C2 (amended).  No authentication attempt reads the lock: the answers and effects of
  \<open>login\<close> and of \<open>verify_iris\<close> are the same whatever \<open>failed_attempts\<close> and
  \<open>locked_until\<close> the identities hold, and a login for an existing user with a
  username and a password always evaluates the password check and is answered by its
  result alone, 200 when it passes and 401 when it fails.
\<close>

theorem C2_login_ignores_lock:
  "login chk (map (\<lambda>u. u\<lparr>failed_attempts := f u, locked_until := l u\<rparr>) users) m data
     = login chk users m data
   \<and> verify_iris cv (map (\<lambda>u. u\<lparr>failed_attempts := f u, locked_until := l u\<rparr>) users) request
     = verify_iris cv users request
   \<and> (map_of d ''username'' = Some name \<longrightarrow> map_of d ''password'' = Some password \<longrightarrow>
      find (\<lambda>u. username u = name) users = Some u \<longrightarrow>
      login chk users POST (Some d) =
        (if chk (password_hash u) password
         then ((Json_message ''Login successful'', 200),
               [Query_username name, Check_password (user_id u), Login_user (user_id u)])
         else ((Json_error ''Invalid username or password'', 401),
               [Query_username name, Check_password (user_id u)])))"
  using login_decided_by_password [of d name password users u chk]
  by (simp add: login_lock_update verify_iris_lock_update)

theorem C2_login_ignores_lock_witness:
  "map_of [(''username'', ''testuser''), (''password'', ''wrong'')] ''username'' = Some ''testuser''
   \<and> map_of [(''username'', ''testuser''), (''password'', ''wrong'')] ''password'' = Some ''wrong''
   \<and> find (\<lambda>u. username u = ''testuser'') [lockeduser] = Some lockeduser
   \<and> login example_check_password_hash [lockeduser] POST
        (Some [(''username'', ''testuser''), (''password'', ''wrong'')])
      = ((Json_error ''Invalid username or password'', 401),
         [Query_username ''testuser'', Check_password 1])"
proof -
  have 1: "find (\<lambda>u. username u = ''testuser'') [lockeduser] = Some lockeduser"
    by (simp add: lockeduser_def testuser_def)
  have 2: "\<not> example_check_password_hash (password_hash lockeduser) ''wrong''"
    by (simp add: example_check_password_hash_def lockeduser_def testuser_def)
  have 3: "user_id lockeduser = 1" by (simp add: lockeduser_def testuser_def)
  show ?thesis
    using C2_login_ignores_lock [of example_check_password_hash "\<lambda>u. None" "\<lambda>u. None" "[lockeduser]" POST None
        example_vision "example_request []"
        "[(''username'', ''testuser''), (''password'', ''wrong'')]" "''testuser''" "''wrong''" lockeduser]
      1 2 3 by simp
qed

section \<open>Iris verification\<close>

lemma valid_circle_iff: "valid_circle cs \<longleftrightarrow> (\<exists>(x, y, r) \<in> set cs. r > 15)"
  by (induction cs rule: valid_circle.induct) auto

lemma compare_with_each_first:
  "iris_data u = Some stored \<Longrightarrow>
   compare_with_each (u # rest) new =
     ((Json_authenticated ''Iris authentication successful'' (username u), 200),
      [Compare_iris (user_id u), Login_user (user_id u)])"
  by (simp add: compare_iris_images_def)

lemma detect_no_circles:
  "imdecode cv d = Returned (Some img) \<Longrightarrow> cvtColor cv img = Returned gray \<Longrightarrow>
   HoughCircles cv gray
     \<lparr>dp = 1, minDist = 30, param1 = 50, param2 = 30, minRadius = 10, maxRadius = 100\<rparr>
     = Returned None \<Longrightarrow>
   detect_iris_in_image cv d = (False, [Decode_image, Detect_circles])"
  by (simp add: detect_iris_in_image_def)

lemma verify_iris_not_detected:
  assumes "files request ''iris_image'' = Some d" and "detect_iris_in_image cv d = (False, evs)"
  shows "verify_iris cv users request =
     ((Json_error ''No iris detected in the image. Please ensure your eye is clearly visible and well-lit.'', 400),
      evs)"
  using assms by (simp add: verify_iris_def)

text \<open>
  The radius that \<open>detect_iris_in_image\<close> tests is the one \<open>np.round\<close> returns:
  it exceeds 15 exactly when the detected radius is at least 15.5.
\<close>

lemma np_round_gt_15_iff: "np_round r > 15 \<longleftrightarrow> r \<ge> 31 / 2"
proof -
  have "r \<ge> 31 / 2 \<Longrightarrow> np_round r > 15"
  proof -
    assume a: "r \<ge> 31 / 2"
    then have f: "\<lfloor>r\<rfloor> \<ge> 15" by linarith
    show ?thesis
    proof (cases "\<lfloor>r\<rfloor> \<ge> 16")
      case True
      then show ?thesis by (auto simp: np_round_def Let_def)
    next
      case False
      then have e: "\<lfloor>r\<rfloor> = 15" using f by linarith
      then have "r - of_int \<lfloor>r\<rfloor> \<ge> 1 / 2" using a by simp
      then show ?thesis using e by (auto simp: np_round_def Let_def)
    qed
  qed
  moreover have "np_round r > 15 \<Longrightarrow> r \<ge> 31 / 2"
  proof (rule ccontr)
    assume n: "np_round r > 15" and "\<not> r \<ge> 31 / 2"
    then have lt: "r < 31 / 2" by simp
    then have f: "\<lfloor>r\<rfloor> \<le> 15" by linarith
    show False
    proof (cases "\<lfloor>r\<rfloor> = 15")
      case True
      then have "r - of_int \<lfloor>r\<rfloor> < 1 / 2" using lt by simp
      then show False using n True by (simp add: np_round_def Let_def)
    next
      case False
      then have "\<lfloor>r\<rfloor> \<le> 14" using f by linarith
      then show False using n by (auto simp: np_round_def Let_def split: if_splits)
    qed
  qed
  ultimately show ?thesis by blast
qed

text \<open>
  C3 (as stated, refuted).  The detector reports a circle of radius 15.3, which is
  greater than 15, and two users have iris data; the radius rounds to 15, so
  \<open>verify_iris\<close> answers 400 with the no-iris-detected error and authenticates nobody.
\<close>

theorem C3_fractional_radius_counterexample:
  "HoughCircles example_vision_fractional [[20, 1]]
       \<lparr>dp = 1, minDist = 30, param1 = 50, param2 = 30, minRadius = 10, maxRadius = 100\<rparr>
     = Returned (Some [(50, 50, 153 / 10)])
   \<and> (15 :: real) < 153 / 10
   \<and> filter (\<lambda>u. iris_data u \<noteq> None) example_users = [example_users ! 1, example_users ! 2]
   \<and> verify_iris example_vision_fractional example_users (example_request [20, 1]) =
       ((Json_error ''No iris detected in the image. Please ensure your eye is clearly visible and well-lit.'', 400),
        [Decode_image, Detect_circles])"
  by (simp add: verify_iris_def detect_iris_in_image_def example_vision_fractional_def
      example_vision_def example_users_def example_request_def testuser_def np_round_def)

text \<open>
  C3 (amended).  \<open>compare_iris_images\<close> returns True for every pair of byte strings;
  so when the uploaded image decodes, the circle detector reports a circle whose radius
  rounded by \<open>np.round\<close> exceeds 15, and \<open>u\<close> is the first user of the table with
  iris data, \<open>verify_iris\<close> logs \<open>u\<close> in and answers 200 with \<open>u\<close>'s name, after
  comparing with \<open>u\<close> alone, whatever the stored and the uploaded bytes are.
\<close>

theorem C3_first_enrolled_user_authenticated:
  assumes "files request ''iris_image'' = Some d"
    and "imdecode cv d = Returned (Some img)"
    and "cvtColor cv img = Returned gray"
    and "HoughCircles cv gray
           \<lparr>dp = 1, minDist = 30, param1 = 50, param2 = 30, minRadius = 10, maxRadius = 100\<rparr>
           = Returned (Some circles)"
    and "(x, y, r) \<in> set circles" and "np_round r > 15"
    and "filter (\<lambda>u. iris_data u \<noteq> None) users = u # rest"
  shows "compare_iris_images stored new = True \<and>
     verify_iris cv users request =
       ((Json_authenticated ''Iris authentication successful'' (username u), 200),
        [Decode_image, Detect_circles, Query_iris_users, Compare_iris (user_id u), Login_user (user_id u)])"
proof -
  have "valid_circle (map (\<lambda>(x, y, r). (np_round x, np_round y, np_round r)) circles)"
    unfolding valid_circle_iff using assms(5,6) by force
  then have det: "detect_iris_in_image cv d = (True, [Decode_image, Detect_circles])"
    using assms(2-4) by (simp add: detect_iris_in_image_def)
  have "u \<in> set (filter (\<lambda>u. iris_data u \<noteq> None) users)" using assms(7) by simp
  then obtain stored' where st: "iris_data u = Some stored'" by auto
  show ?thesis
    using assms(1,7) det compare_with_each_first [OF st]
    by (simp add: verify_iris_def compare_iris_images_def)
qed

lemma np_round_20: "np_round 20 = 20"
  by (simp add: np_round_def)

theorem C3_first_enrolled_user_authenticated_witness:
  "files (example_request [20, 1]) ''iris_image'' = Some [20, 1]
   \<and> imdecode example_vision [20, 1] = Returned (Some [[(20, 20, 20), (1, 1, 1)]])
   \<and> cvtColor example_vision [[(20, 20, 20), (1, 1, 1)]] = Returned [[20, 1]]
   \<and> HoughCircles example_vision [[20, 1]]
        \<lparr>dp = 1, minDist = 30, param1 = 50, param2 = 30, minRadius = 10, maxRadius = 100\<rparr>
        = Returned (Some [(50, 50, 20)])
   \<and> np_round 20 > 15
   \<and> filter (\<lambda>u. iris_data u \<noteq> None) example_users = [example_users ! 1, example_users ! 2]
   \<and> verify_iris example_vision example_users (example_request [20, 1]) =
       ((Json_authenticated ''Iris authentication successful'' ''bob'', 200),
        [Decode_image, Detect_circles, Query_iris_users, Compare_iris 2, Login_user 2])"
proof -
  have 1: "files (example_request [20, 1]) ''iris_image'' = Some [20, 1]"
    by (simp add: example_request_def)
  have 2: "imdecode example_vision [20, 1] = Returned (Some [[(20, 20, 20), (1, 1, 1)]])"
    by (simp add: example_vision_def)
  have 3: "cvtColor example_vision [[(20, 20, 20), (1, 1, 1)]] = Returned [[20, 1]]"
    by (simp add: example_vision_def)
  have 4: "HoughCircles example_vision [[20, 1]]
        \<lparr>dp = 1, minDist = 30, param1 = 50, param2 = 30, minRadius = 10, maxRadius = 100\<rparr>
        = Returned (Some [(50, 50, 20)])"
    by (simp add: example_vision_def)
  have 5: "(50, 50, 20) \<in> set [(50 :: real, 50 :: real, 20 :: real)]" by simp
  have 6: "np_round 20 > 15" by (simp add: np_round_20)
  have 7: "filter (\<lambda>u. iris_data u \<noteq> None) example_users = [example_users ! 1, example_users ! 2]"
    by (simp add: example_users_def testuser_def)
  have 8: "username (example_users ! 1) = ''bob''" "user_id (example_users ! 1) = 2"
    by (simp_all add: example_users_def)
  show ?thesis using C3_first_enrolled_user_authenticated [OF 1 2 3 4 5 6 7] 1 2 3 4 6 7 8 by simp
qed

text \<open>
  C9.  When the uploaded image decodes and the circle detector finds no circle,
  \<open>verify_iris\<close> answers 400 with the no-iris-detected error, and its effects are the
  decoding and the circle detection only: the user table is neither queried nor compared
  against, and the answer is the same for every content of the table.
\<close>

theorem C9_no_circle_no_store_access:
  assumes "files request ''iris_image'' = Some d"
    and "imdecode cv d = Returned (Some img)"
    and "cvtColor cv img = Returned gray"
    and "HoughCircles cv gray
           \<lparr>dp = 1, minDist = 30, param1 = 50, param2 = 30, minRadius = 10, maxRadius = 100\<rparr>
           = Returned None"
  shows "verify_iris cv users request =
     ((Json_error ''No iris detected in the image. Please ensure your eye is clearly visible and well-lit.'', 400),
      [Decode_image, Detect_circles])
    \<and> Query_iris_users \<notin> set (snd (verify_iris cv users request))
    \<and> (\<forall>uid. Compare_iris uid \<notin> set (snd (verify_iris cv users request)))"
  using verify_iris_not_detected [OF assms(1) detect_no_circles [OF assms(2-4)]] by simp

theorem C9_no_circle_no_store_access_witness:
  "files (example_request [0, 1]) ''iris_image'' = Some [0, 1]
   \<and> imdecode example_vision [0, 1] = Returned (Some [[(0, 0, 0), (1, 1, 1)]])
   \<and> cvtColor example_vision [[(0, 0, 0), (1, 1, 1)]] = Returned [[0, 1]]
   \<and> HoughCircles example_vision [[0, 1]]
        \<lparr>dp = 1, minDist = 30, param1 = 50, param2 = 30, minRadius = 10, maxRadius = 100\<rparr>
        = Returned None
   \<and> verify_iris example_vision example_users (example_request [0, 1]) =
     ((Json_error ''No iris detected in the image. Please ensure your eye is clearly visible and well-lit.'', 400),
      [Decode_image, Detect_circles])"
proof -
  have 1: "files (example_request [0, 1]) ''iris_image'' = Some [0, 1]"
    by (simp add: example_request_def)
  have 2: "imdecode example_vision [0, 1] = Returned (Some [[(0, 0, 0), (1, 1, 1)]])"
    by (simp add: example_vision_def)
  have 3: "cvtColor example_vision [[(0, 0, 0), (1, 1, 1)]] = Returned [[0, 1]]"
    by (simp add: example_vision_def)
  have 4: "HoughCircles example_vision [[0, 1]]
        \<lparr>dp = 1, minDist = 30, param1 = 50, param2 = 30, minRadius = 10, maxRadius = 100\<rparr>
        = Returned None"
    by (simp add: example_vision_def)
  show ?thesis using C9_no_circle_no_store_access [OF 1 2 3 4, of example_users] 1 2 3 4 by simp
qed

section \<open>Rate limiting\<close>

text \<open>
  A route wrapped in \<open>rate_limit\<close>: while the window of an address is open, the
  requests that still fit under \<open>max_attempts\<close> reach the route, and every later one is
  answered 429 without the route being called.  This holds for the dictionary in
  memory and for Redis.
\<close>

lemma rate_limit_memory_run:
  assumes "redis_client st = None"
    and "rate_limit_storage st ip = Some (k, start)"
    and "\<forall>(now, r) \<in> set reqs. remote_addr r = ip \<and> now - start \<le> timedelta_seconds window"
  shows "serve_rate_limited window m f reqs st =
           map (\<lambda>(now, r). f r) (take (nat (m - k)) reqs)
           @ replicate (length reqs - nat (m - k)) (too_many_attempts window)"
  using assms
proof (induction reqs arbitrary: k st)
  case Nil
  then show ?case by simp
next
  case (Cons a reqs)
  obtain now r where a: "a = (now, r)" by (cases a)
  have ip: "remote_addr r = ip" and inw: "\<not> now - start > timedelta_seconds window"
    using Cons.prems(3) a by auto
  show ?case
  proof (cases "k \<ge> m")
    case True
    then have step: "rate_limit window m f now r st = (too_many_attempts window, st)"
      using Cons.prems(1,2) ip inw
      by (simp add: rate_limit_def is_rate_limited_def too_many_attempts_def)
    have "serve_rate_limited window m f reqs st =
           map (\<lambda>(now, r). f r) (take (nat (m - k)) reqs)
           @ replicate (length reqs - nat (m - k)) (too_many_attempts window)"
      using Cons.IH [OF Cons.prems(1,2)] Cons.prems(3) by simp
    then show ?thesis using True step a by simp
  next
    case False
    let ?st = "st\<lparr>rate_limit_storage := (rate_limit_storage st)(ip \<mapsto> (k + 1, start))\<rparr>"
    have step: "rate_limit window m f now r st = (f r, ?st)"
      using Cons.prems(1,2) ip inw False by (simp add: rate_limit_def is_rate_limited_def)
    have "serve_rate_limited window m f reqs ?st =
           map (\<lambda>(now, r). f r) (take (nat (m - (k + 1))) reqs)
           @ replicate (length reqs - nat (m - (k + 1))) (too_many_attempts window)"
      using Cons.IH [of ?st "k + 1"] Cons.prems by simp
    moreover have "nat (m - k) = Suc (nat (m - (k + 1)))" using False by simp
    ultimately show ?thesis using step a by simp
  qed
qed

lemma rate_limit_redis_run:
  assumes "redis_client st = Some redis"
    and "redis (get_rate_limit_key ip) = Some (k, expires)"
    and "\<forall>(now, r) \<in> set reqs. remote_addr r = ip \<and> now < expires"
  shows "serve_rate_limited window m f reqs st =
           map (\<lambda>(now, r). f r) (take (nat (m - k)) reqs)
           @ replicate (length reqs - nat (m - k)) (too_many_attempts window)"
  using assms
proof (induction reqs arbitrary: k st redis)
  case Nil
  then show ?case by simp
next
  case (Cons a reqs)
  obtain now r where a: "a = (now, r)" by (cases a)
  have ip: "remote_addr r = ip" and live: "\<not> expires \<le> now"
    using Cons.prems(3) a by auto
  show ?case
  proof (cases "k \<ge> m")
    case True
    then have step: "rate_limit window m f now r st = (too_many_attempts window, st)"
      using Cons.prems(1,2) ip live
      by (simp add: rate_limit_def is_rate_limited_def too_many_attempts_def)
    have "serve_rate_limited window m f reqs st =
           map (\<lambda>(now, r). f r) (take (nat (m - k)) reqs)
           @ replicate (length reqs - nat (m - k)) (too_many_attempts window)"
      using Cons.IH [OF Cons.prems(1,2)] Cons.prems(3) by simp
    then show ?thesis using True step a by simp
  next
    case False
    let ?redis = "redis(get_rate_limit_key ip \<mapsto> (k + 1, expires))"
    let ?st = "st\<lparr>redis_client := Some ?redis\<rparr>"
    have step: "rate_limit window m f now r st = (f r, ?st)"
      using Cons.prems(1,2) ip live False by (simp add: rate_limit_def is_rate_limited_def)
    have st1: "redis_client ?st = Some ?redis" by simp
    have st2: "?redis (get_rate_limit_key ip) = Some (k + 1, expires)" by simp
    have st3: "\<forall>(now, r) \<in> set reqs. remote_addr r = ip \<and> now < expires"
      using Cons.prems(3) by simp
    have "serve_rate_limited window m f reqs ?st =
           map (\<lambda>(now, r). f r) (take (nat (m - (k + 1))) reqs)
           @ replicate (length reqs - nat (m - (k + 1))) (too_many_attempts window)"
      by (rule Cons.IH [OF st1 st2 st3])
    moreover have "nat (m - k) = Suc (nat (m - (k + 1)))" using False by simp
    ultimately show ?thesis using step a by simp
  qed
qed

text \<open>
  The first request of an address starts the window with the counter at 1; a request
  after the window has elapsed starts a new one.
\<close>

lemma rate_limit_first_window:
  assumes "redis_client st = None" and "rate_limit_storage st (remote_addr r0) = None"
    and "\<forall>(now, r) \<in> set reqs. remote_addr r = remote_addr r0 \<and> now - t0 \<le> timedelta_seconds window"
  shows "serve_rate_limited window m f ((t0, r0) # reqs) st =
           f r0 # map (\<lambda>(now, r). f r) (take (nat (m - 1)) reqs)
           @ replicate (length reqs - nat (m - 1)) (too_many_attempts window)"
proof -
  let ?st = "st\<lparr>rate_limit_storage := (rate_limit_storage st)(remote_addr r0 \<mapsto> (1, t0))\<rparr>"
  have "rate_limit window m f t0 r0 st = (f r0, ?st)"
    using assms(1,2) by (simp add: rate_limit_def is_rate_limited_def)
  moreover have "serve_rate_limited window m f reqs ?st =
           map (\<lambda>(now, r). f r) (take (nat (m - 1)) reqs)
           @ replicate (length reqs - nat (m - 1)) (too_many_attempts window)"
    using rate_limit_memory_run [of ?st "remote_addr r0" 1 t0 reqs window m f] assms by simp
  ultimately show ?thesis by simp
qed

lemma rate_limit_window_elapsed:
  assumes "redis_client st = None" and "rate_limit_storage st (remote_addr r) = Some (k, start)"
    and "now - start > timedelta_seconds window"
  shows "rate_limit window m f now r st =
           (f r, st\<lparr>rate_limit_storage := (rate_limit_storage st)(remote_addr r \<mapsto> (1, now))\<rparr>)"
  using assms by (simp add: rate_limit_def is_rate_limited_def)
lemma verify_example:
  "verify_iris example_vision example_users (example_request [20, 1])
     = ((Json_authenticated ''Iris authentication successful'' ''bob'', 200),
          [Decode_image, Detect_circles, Query_iris_users, Compare_iris 2, Login_user 2])"
  by (simp add: verify_iris_def detect_iris_in_image_def example_vision_def
       example_users_def example_request_def testuser_def compare_iris_images_def np_round_def)


text \<open>
  C4.  Six requests in a row from one address to \<open>/verify_iris\<close> as src/app.py serves
  it: all six are decoded, run through circle detection and the user table, and
  answered 200; the sixth is not answered 429.
\<close>

theorem C4_sixth_request_processed:
  "serve_verify_iris example_vision example_users (replicate 6 (example_request [20, 1]))
     = replicate 6
         ((Json_authenticated ''Iris authentication successful'' ''bob'', 200),
          [Decode_image, Detect_circles, Query_iris_users, Compare_iris 2, Login_user 2])"
  by (simp add: serve_verify_iris_def verify_example)

section \<open>Matching\<close>

lemma sum_squares_scaled:
  "(\<Sum>x\<leftarrow>map (\<lambda>x. x / n) a. x * x) = (\<Sum>x\<leftarrow>a. x * x) / (n * n)" for n :: real
  by (induction a) (simp_all add: add_divide_distrib)

lemma sum_squares_nonneg: "0 \<le> (\<Sum>x\<leftarrow>a. x * x)" for a :: "real list"
  by (induction a) simp_all

lemma l2norm_nonneg: "0 \<le> l2norm a"
  by (simp add: l2norm_def sum_squares_nonneg)

lemma l2norm_scaled:
  "l2norm (map (\<lambda>x. x / n) a) = sqrt ((\<Sum>x\<leftarrow>a. x * x) / (n * n))"
  unfolding l2norm_def sum_squares_scaled ..

lemma l2norm_unit_vector:
  assumes "l2norm a \<noteq> 0"
  shows "l2norm (unit_vector a) = 1"
proof -
  let ?s = "\<Sum>x\<leftarrow>a. x * x"
  have pos: "0 < l2norm a" using assms l2norm_nonneg [of a] by simp
  have sq: "?s = l2norm a * l2norm a"
    by (simp add: l2norm_def sum_squares_nonneg)
  have "l2norm (unit_vector a) = sqrt (?s / (l2norm a * l2norm a))"
    unfolding unit_vector_def by (rule l2norm_scaled)
  also have "\<dots> = sqrt ((l2norm a * l2norm a) / (l2norm a * l2norm a))"
    using sq by simp
  also have "\<dots> = sqrt 1" using pos by simp
  finally show ?thesis by simp
qed

lemma dot_product_scaled:
  "dot_product (map (\<lambda>x. x / m) a) (map (\<lambda>x. x / n) b) = dot_product a b / (m * n)"
  unfolding dot_product_def
proof (induction a arbitrary: b)
  case Nil
  then show ?case by simp
next
  case (Cons x a)
  then show ?case by (cases b) (simp_all add: add_divide_distrib)
qed

lemma dot_unit_is_cosine:
  "dot_product (unit_vector a) (unit_vector b) = cosine_similarity a b"
  by (simp add: unit_vector_def dot_product_scaled cosine_similarity_def)


text \<open>
  C5.  If either feature vector is \<open>None\<close> the matcher returns False.  For two present
  vectors whose dot product numpy can take (vectors of equal length), it returns whether
  the dot product of the two vectors, each divided by its L2 norm, is \<open>>=\<close> the
  threshold; the threshold is 0.8 when none is given.  In exact arithmetic, for vectors
  of equal length and non-zero norm, the two divided vectors have L2 norm 1 and the
  decision is whether the cosine similarity reaches the threshold.
\<close>

theorem C5_matcher_decision:
  "compare_iris_features np None features2 t = Inr False
   \<and> compare_iris_features np features1 None t = Inr False
   \<and> (np_dot np (np_divide np a (np_linalg_norm np a)) (np_divide np b (np_linalg_norm np b))
          = Inr similarity \<longrightarrow>
        compare_iris_features np (Some a) (Some b) t = Inr (np_greater_equal np similarity t))
   \<and> compare_iris_features_default np features1 features2
        = compare_iris_features np features1 features2 (np_float np (8 / 10))
   \<and> (length x = length y \<longrightarrow> l2norm x \<noteq> 0 \<longrightarrow> l2norm y \<noteq> 0 \<longrightarrow>
        l2norm (np_divide exact_numpy x (np_linalg_norm exact_numpy x)) = 1
        \<and> l2norm (np_divide exact_numpy y (np_linalg_norm exact_numpy y)) = 1
        \<and> compare_iris_features exact_numpy (Some x) (Some y) r
             = Inr (cosine_similarity x y \<ge> r))"
proof -
  have u: "np_divide exact_numpy v (np_linalg_norm exact_numpy v) = unit_vector v" for v
    by (simp add: exact_numpy_def unit_vector_def)
  have "compare_iris_features exact_numpy (Some x) (Some y) r = Inr (cosine_similarity x y \<ge> r)"
    if "length x = length y"
    using that dot_unit_is_cosine [of x y] unfolding compare_iris_features_def u Let_def
    by (simp add: exact_numpy_def unit_vector_def)
  then show ?thesis
    by (auto simp: u l2norm_unit_vector compare_iris_features_def
        compare_iris_features_default_def split: option.splits)
qed

lemma l2norm_3_4: "l2norm [3, 4] = 5" and l2norm_4_3: "l2norm [4, 3] = 5"
  by (simp_all add: l2norm_def real_sqrt_unique)

theorem C5_matcher_decision_witness:
  "length [3, 4 :: real] = length [4, 3 :: real] \<and> l2norm [3, 4] \<noteq> 0 \<and> l2norm [4, 3] \<noteq> 0
   \<and> np_dot exact_numpy (np_divide exact_numpy [3, 4] (np_linalg_norm exact_numpy [3, 4]))
        (np_divide exact_numpy [4, 3] (np_linalg_norm exact_numpy [4, 3])) = Inr (24 / 25)
   \<and> compare_iris_features exact_numpy (Some [3, 4]) (Some [4, 3]) (8 / 10) = Inr True
   \<and> compare_iris_features exact_numpy (Some [3, 4]) (Some [4, 3]) (97 / 100) = Inr False"
proof -
  have d: "np_dot exact_numpy (np_divide exact_numpy [3, 4] (np_linalg_norm exact_numpy [3, 4]))
        (np_divide exact_numpy [4, 3] (np_linalg_norm exact_numpy [4, 3])) = Inr (24 / 25)"
    by (simp add: exact_numpy_def l2norm_3_4 l2norm_4_3 dot_product_def)
  show ?thesis
    using d C5_matcher_decision [of exact_numpy None "8 / 10" None "[3, 4]" "[4, 3]" "24 / 25" "[3, 4]" "[4, 3]" "8 / 10"]
      C5_matcher_decision [of exact_numpy None "97 / 100" None "[3, 4]" "[4, 3]" "24 / 25" "[3, 4]" "[4, 3]" "97 / 100"]
    by (simp add: l2norm_3_4 l2norm_4_3 exact_numpy_def)
qed




section \<open>Quality score\<close>

lemma sum_sq_dev_nonneg: "0 \<le> (\<Sum>x\<leftarrow>xs. (x - m)\<^sup>2)" for m :: real
  by (induction xs) simp_all

lemma sum_pixels_nonneg: "0 \<le> sum_list (map (\<lambda>p. real (unat p)) ps)"
  by (induction ps) (simp_all del: of_nat_unat)

lemma np_var_nonneg: "xs \<noteq> [] \<Longrightarrow> \<exists>v. np_var xs = Num v \<and> 0 \<le> v"
  by (simp add: np_var_def Let_def sum_sq_dev_nonneg)

lemma np_std_nonneg: "xs \<noteq> [] \<Longrightarrow> \<exists>v. np_std xs = Num v \<and> 0 \<le> v"
  using np_var_nonneg [of xs] by (auto simp: np_std_def)

lemma np_mean_pixels_nonneg:
  "ps \<noteq> [] \<Longrightarrow> \<exists>v. np_mean (map (\<lambda>p. real (unat p)) ps) = Num v \<and> 0 \<le> v"
  using sum_pixels_nonneg [of ps] by (simp add: np_mean_def del: of_nat_unat)

lemma clipped_score_min: "py_min (float_div (Num v) c) 1 = Num (min (v / c) 1)"
  by (simp add: py_min_def float_div_def min_def)

lemma concat_nonempty_same_shape:
  assumes "map length lap = map length gray" and "concat gray \<noteq> []"
  shows "concat lap \<noteq> []"
proof -
  have "length (concat lap) = length (concat gray)"
    using assms(1) by (simp add: length_concat)
  with assms(2) show ?thesis by (metis length_0_conv)
qed

text \<open>
  C6.  For every grayscale image with at least one pixel, if the Laplacian that OpenCV
  returns has the shape of the image (or the call raises), the quality score is a
  number in the closed interval from 0 to 1; when the Laplacian is returned, the score is
  0.3 * min(mean / 127.5, 1) + 0.3 * min(std / 64, 1) + 0.4 * min(var / 500, 1) for the
  mean and standard deviation of the pixels and the variance of the Laplacian.
\<close>

theorem C6_quality_score_bounds:
  assumes "concat gray \<noteq> []"
    and "\<forall>lap. Laplacian cv gray = Returned lap \<longrightarrow> map length lap = map length gray"
  shows "(\<exists>q. calculate_iris_quality_score cv (Gray gray) = Num q \<and> 0 \<le> q \<and> q \<le> 1)
       \<and> (\<forall>lap. Laplacian cv gray = Returned lap \<longrightarrow>
            (\<exists>m sd lv.
               np_mean (map (\<lambda>p. real (unat p)) (concat gray)) = Num m
               \<and> np_std (map (\<lambda>p. real (unat p)) (concat gray)) = Num sd
               \<and> np_var (concat lap) = Num lv
               \<and> calculate_iris_quality_score cv (Gray gray) =
                   Num (3 / 10 * min (m / (1275 / 10)) 1 + 3 / 10 * min (sd / 64) 1
                        + 4 / 10 * min (lv / 500) 1)))"
proof (cases "Laplacian cv gray")
  case Raised
  then show ?thesis by (simp add: calculate_iris_quality_score_def)
next
  case (Returned lap)
  have lap: "concat lap \<noteq> []"
    using assms Returned concat_nonempty_same_shape by blast
  let ?px = "map (\<lambda>p. real (unat p)) (concat gray)"
  have px: "?px \<noteq> []" using assms(1) by simp
  obtain m where m: "np_mean ?px = Num m" "0 \<le> m"
    using np_mean_pixels_nonneg [OF assms(1)] by blast
  obtain sd where sd: "np_std ?px = Num sd" "0 \<le> sd"
    using np_std_nonneg [OF px] by blast
  obtain lv where lv: "np_var (concat lap) = Num lv" "0 \<le> lv"
    using np_var_nonneg [OF lap] by blast
  let ?q = "3 / 10 * min (m / (1275 / 10)) 1 + 3 / 10 * min (sd / 64) 1
              + 4 / 10 * min (lv / 500) 1"
  have score: "calculate_iris_quality_score cv (Gray gray) = Num ?q"
    using Returned m(1) sd(1) lv(1)
    by (simp add: calculate_iris_quality_score_def Let_def clipped_score_min
        float_add_def float_mul_def del: of_nat_unat)
  have "0 \<le> min (m / (1275 / 10)) 1" "0 \<le> min (sd / 64) 1" "0 \<le> min (lv / 500) 1"
    using m(2) sd(2) lv(2) by simp_all
  moreover have "min (m / (1275 / 10)) 1 \<le> 1" "min (sd / 64) 1 \<le> 1" "min (lv / 500) 1 \<le> 1"
    by simp_all
  ultimately have "0 \<le> ?q" "?q \<le> 1" by linarith+
  then show ?thesis using score Returned m(1) sd(1) lv(1) by auto
qed

text \<open>The two degenerate images: all white scores 0.3, all black scores 0.\<close>

lemma quality_score_all_white:
  "calculate_iris_quality_score example_vision (Gray [[255, 255], [255, 255]]) = Num (3 / 10)"
  by (simp add: calculate_iris_quality_score_def example_vision_def np_mean_def np_std_def np_var_def
      py_min_def float_div_def float_mul_def float_add_def)
lemma quality_score_all_black:
  "calculate_iris_quality_score example_vision (Gray [[0, 0], [0, 0]]) = Num 0"
  by (simp add: calculate_iris_quality_score_def example_vision_def np_mean_def np_std_def np_var_def
      py_min_def float_div_def float_mul_def float_add_def)

theorem C6_quality_score_bounds_witness:
  "concat [[255, 255], [255, 255 :: 8 word]] \<noteq> []
   \<and> (\<exists>q. calculate_iris_quality_score example_vision (Gray [[255, 255], [255, 255]]) = Num q
          \<and> 0 \<le> q \<and> q \<le> 1)
   \<and> (\<exists>q. calculate_iris_quality_score example_vision (Gray [[0, 0], [0, 0]]) = Num q
          \<and> 0 \<le> q \<and> q \<le> 1)"
  using C6_quality_score_bounds [of "[[255, 255], [255, 255]]" example_vision]
    C6_quality_score_bounds [of "[[0, 0], [0, 0]]" example_vision]
  by (simp add: example_vision_def)

section \<open>Feature vector length\<close>

lemma np_arange_thetas: "np_arange 0 pi (pi / 4) = [0, pi / 4, 2 * (pi / 4), 3 * (pi / 4)]"
  by (simp add: np_arange_def upt_rec)

lemma length_concat_shape:
  "has_shape h w img \<Longrightarrow> length (concat img) = h * w"
  unfolding has_shape_def
proof (induction img arbitrary: h)
  case Nil then show ?case by simp
next
  case (Cons r rs)
  then have "length (concat rs) = length rs * w" by simp
  with Cons.prems show ?case by auto
qed

lemma apply_gabor_filters_lengths:
  assumes "\<forall>g k out. filter2D cv g k = Returned out \<longrightarrow> map length out = map length g"
    and "apply_gabor_filters cv iris pairs = Returned features"
  shows "length features = length pairs \<and> (\<forall>f \<in> set features. length f = length (concat iris))"
  using assms(2)
proof (induction pairs arbitrary: features)
  case Nil
  then show ?case by simp
next
  case (Cons p pairs)
  obtain theta freq where p: "p = (theta, freq)" by (cases p)
  from Cons.prems p obtain gabor filtered rest where
    f: "filter2D cv iris gabor = Returned filtered"
    and r: "apply_gabor_filters cv iris pairs = Returned rest"
    and e: "features = concat filtered # rest"
    by (auto split: cv_result.splits)
  have "map length filtered = map length iris" using assms(1) f by blast
  then have "length (concat filtered) = length (concat iris)"
    by (simp add: length_concat)
  with Cons.IH [OF r] e show ?case by simp
qed

lemma length_concat_const:
  "\<forall>f \<in> set fs. length f = n \<Longrightarrow> length (concat fs) = length fs * n"
  by (induction fs) auto

lemma extract_iris_features_length:
  assumes "\<forall>g k out. filter2D cv g k = Returned out \<longrightarrow> map length out = map length g"
    and "extract_iris_features cv (Some patch) = Returned (Some v)"
  shows "length v = 12 * length (concat patch)"
proof -
  let ?pairs = "List.product (np_arange 0 pi (pi / 4)) [1 / 10, 2 / 10, 3 / 10]"
  from assms(2) obtain fs where a: "apply_gabor_filters cv patch ?pairs = Returned fs"
    and v: "v = concat fs"
    by (auto simp: extract_iris_features_def split: cv_result.splits)
  have "length ?pairs = 12" by (simp add: np_arange_thetas)
  with apply_gabor_filters_lengths [OF assms(1) a]
  have "length fs = 12" and "\<forall>f \<in> set fs. length f = length (concat patch)" by simp_all
  then show ?thesis using v length_concat_const by fastforce
qed

lemma process_eye_region_shape:
  assumes "\<forall>g out. resize cv g (100, 100) = Returned out \<longrightarrow> has_shape 100 100 out"
    and "process_eye_region cv eye = Returned (Some patch)"
  shows "has_shape 100 100 patch"
  using assms
  by (auto simp: process_eye_region_def
      split: if_splits cv_result.splits option.splits list.splits prod.splits)

lemma segment_eyes_patches:
  assumes "segment_eyes cv d = Some (li, ri)"
  shows "\<exists>le re. process_eye_region cv le = Returned li \<and> process_eye_region cv re = Returned ri"
  using assms
  by (auto simp: segment_eyes_def split: cv_result.splits option.splits list.splits prod.splits)

lemma apply_gabor_filters_returns:
  assumes "\<forall>ks s t l g p. getGaborKernel cv ks s t l g p \<noteq> Raised"
    and "\<forall>g k. filter2D cv g k \<noteq> Raised"
  shows "\<exists>fs. apply_gabor_filters cv iris pairs = Returned fs"
proof (induction pairs)
  case Nil
  then show ?case by simp
next
  case (Cons p pairs)
  obtain theta freq where p: "p = (theta, freq)" by (cases p)
  obtain k where k: "getGaborKernel cv (21, 21) 5 theta (1 / freq) (1 / 2) 0 = Returned k"
    using assms(1) by (meson cv_result.exhaust)
  obtain out where out: "filter2D cv iris k = Returned out"
    using assms(2) by (meson cv_result.exhaust)
  from Cons obtain fs where "apply_gabor_filters cv iris pairs = Returned fs" by blast
  then show ?case using p k out by simp
qed

lemma extract_iris_features_returns:
  assumes "\<forall>ks s t l g p. getGaborKernel cv ks s t l g p \<noteq> Raised"
    and "\<forall>g k. filter2D cv g k \<noteq> Raised"
  shows "\<exists>v. extract_iris_features cv (Some patch) = Returned (Some v)"
  using apply_gabor_filters_returns [OF assms] 
  by (metis (no_types, lifting) cv_result.simps(5) extract_iris_features_def option.simps(5))

lemma process_image_Some:
  assumes "process_image cv d = Some v"
  shows "\<exists>li ri l r. segment_eyes cv d = Some (Some li, Some ri)
           \<and> extract_iris_features cv (Some li) = Returned (Some l)
           \<and> extract_iris_features cv (Some ri) = Returned (Some r) \<and> v = l @ r"
proof -
  from assms obtain a b lf rf where s: "segment_eyes cv d = Some (a, b)"
    and l: "extract_iris_features cv a = Returned lf"
    and r: "extract_iris_features cv b = Returned rf"
    and c: "(case (lf, rf) of (Some l, Some r) \<Rightarrow> Some (l @ r) | _ \<Rightarrow> None) = Some v"
    by (auto simp: process_image_def split: option.splits cv_result.splits prod.splits)
  from c obtain l' r' where lr: "lf = Some l'" "rf = Some r'" "v = l' @ r'"
    by (auto split: option.splits)
  from l lr(1) obtain li where "a = Some li"
    by (cases a) (auto simp: extract_iris_features_def)
  moreover from r lr(2) obtain ri where "b = Some ri"
    by (cases b) (auto simp: extract_iris_features_def)
  ultimately show ?thesis using s l r lr by blast
qed

text \<open>
  C7.  Let \<open>resize\<close> return an image of the size it is asked for and \<open>filter2D\<close> an
  image of the shape of its input.  Then the two iris patches of a segmented eye pair
  are 100 by 100; every feature vector that \<open>process_image\<close> returns has length
  240000 = 12 * 100 * 100 * 2, whatever the input image; and when both eyes are segmented
  and the filter calls do not raise, \<open>process_image\<close> does return such a vector.
\<close>

theorem C7_feature_vector_length:
  assumes resize_ok: "\<forall>g out. resize cv g (100, 100) = Returned out \<longrightarrow> has_shape 100 100 out"
    and filter_ok: "\<forall>g k out. filter2D cv g k = Returned out \<longrightarrow> map length out = map length g"
  shows "(segment_eyes cv image_data = Some (Some left_iris, Some right_iris) \<longrightarrow>
            has_shape 100 100 left_iris \<and> has_shape 100 100 right_iris)
       \<and> (process_image cv image_data = Some v \<longrightarrow> length v = 240000)
       \<and> (segment_eyes cv image_data = Some (Some left_iris, Some right_iris) \<longrightarrow>
            (\<forall>ks s t l g p. getGaborKernel cv ks s t l g p \<noteq> Raised) \<longrightarrow>
            (\<forall>g k. filter2D cv g k \<noteq> Raised) \<longrightarrow>
            (\<exists>w. process_image cv image_data = Some w \<and> length w = 240000))"
proof -
  have shapes: "has_shape 100 100 li \<and> has_shape 100 100 ri"
    if "segment_eyes cv image_data = Some (Some li, Some ri)" for li ri
    using segment_eyes_patches [OF that] process_eye_region_shape [OF resize_ok] by blast
  have len: "length u = 240000" if "process_image cv image_data = Some u" for u
  proof -
    from process_image_Some [OF that] obtain li ri l r where
      s: "segment_eyes cv image_data = Some (Some li, Some ri)"
      and l: "extract_iris_features cv (Some li) = Returned (Some l)"
      and r: "extract_iris_features cv (Some ri) = Returned (Some r)"
      and u: "u = l @ r" by blast
    have "length (concat li) = 100 * 100" "length (concat ri) = 100 * 100"
      using shapes [OF s] length_concat_shape by blast+
    then have "length l = 120000" "length r = 120000"
      using extract_iris_features_length [OF filter_ok l]
        extract_iris_features_length [OF filter_ok r] by simp_all
    then show ?thesis using u by simp
  qed
  have ex: "\<exists>w. process_image cv image_data = Some w \<and> length w = 240000"
    if s: "segment_eyes cv image_data = Some (Some left_iris, Some right_iris)"
      and g: "\<forall>ks s t l g p. getGaborKernel cv ks s t l g p \<noteq> Raised"
      and f: "\<forall>g k. filter2D cv g k \<noteq> Raised"
  proof -
    obtain l where l: "extract_iris_features cv (Some left_iris) = Returned (Some l)"
      using extract_iris_features_returns [OF g f] by blast
    obtain r where r: "extract_iris_features cv (Some right_iris) = Returned (Some r)"
      using extract_iris_features_returns [OF g f] by blast
    have "process_image cv image_data = Some (l @ r)"
      using s l r by (simp add: process_image_def)
    then show ?thesis using len by blast
  qed
  show ?thesis using shapes len ex by blast
qed

lemma segment_example:
  "segment_eyes example_vision [20] =
     Some (Some (replicate 100 (replicate 100 0)), Some (replicate 100 (replicate 100 0)))"
  by (simp add: segment_eyes_def example_vision_def extract_eye_region_def process_eye_region_def
      crop_def py_slice_def upt_rec)

theorem C7_feature_vector_length_witness:
  "segment_eyes example_vision [20] =
       Some (Some (replicate 100 (replicate 100 0)), Some (replicate 100 (replicate 100 0)))
   \<and> (\<exists>w. process_image example_vision [20] = Some w \<and> length w = 240000)"
proof -
  have r: "\<forall>g out. resize example_vision g (100, 100) = Returned out \<longrightarrow> has_shape 100 100 out"
    by (auto simp: example_vision_def has_shape_def)
  have f: "\<forall>g k out. filter2D example_vision g k = Returned out \<longrightarrow> map length out = map length g"
    by (simp add: example_vision_def)
  have g: "\<forall>ks s t l g p. getGaborKernel example_vision ks s t l g p \<noteq> Raised"
    and n: "\<forall>g k. filter2D example_vision g k \<noteq> Raised"
    by (simp_all add: example_vision_def)
  show ?thesis
    using C7_feature_vector_length
            [OF r f, of "[20]" "replicate 100 (replicate 100 0)" "replicate 100 (replicate 100 0)"]
      segment_example g n by blast
qed

section \<open>Iris data round trip\<close>

text \<open>
  C10 (as stated, refuted).  Storing the empty byte string and reading it back gives
  \<open>None\<close>, not the empty byte string, although iris data is stored.
\<close>

theorem C10_empty_bytes_counterexample:
  "iris_data (set_iris_data testuser []) = Some []
   \<and> get_iris_data (set_iris_data testuser []) = None
   \<and> get_iris_data (set_iris_data testuser []) \<noteq> Some []"
  by (simp add: set_iris_data_def get_iris_data_def encrypt_iris_data_def)

text \<open>
  C10 (amended).  For every byte string \<open>b\<close>, decrypting the encryption of \<open>b\<close> gives
  \<open>b\<close>; storing a non-empty \<open>b\<close> with \<open>set_iris_data\<close> and reading it with
  \<open>get_iris_data\<close> returns exactly \<open>b\<close>; \<open>get_iris_data\<close> returns \<open>None\<close> exactly
  when the stored iris data is \<open>None\<close> or the empty byte string.
\<close>

theorem C10_iris_data_roundtrip:
  "decrypt_iris_data (encrypt_iris_data b) = b
   \<and> (b \<noteq> [] \<longrightarrow> get_iris_data (set_iris_data u b) = Some b)
   \<and> (get_iris_data u = None \<longleftrightarrow> iris_data u = None \<or> iris_data u = Some [])"
  by (auto simp: set_iris_data_def get_iris_data_def encrypt_iris_data_def
      decrypt_iris_data_def split: option.splits)

theorem C10_iris_data_roundtrip_witness:
  "[1, 2, 3] \<noteq> ([] :: bytes)
   \<and> get_iris_data (set_iris_data testuser [1, 2, 3]) = Some [1, 2, 3]"
  using C10_iris_data_roundtrip [of "[1, 2, 3]" testuser] by simp

end
